theory Spec2Isabelle
  imports Main "HOL-Library.Word"
begin

unbundle bit_operations_syntax

section \<open>Python values, errors and bytes\<close>

text \<open>
  The embedding follows \<^verbatim>\<open>custom_components/govee-ble-lights/light.py\<close>.
  Python integers are unbounded, so they are \<^typ>\<open>int\<close>. A \<^verbatim>\<open>bytes\<close> object is a
  list of 8-bit words. The arguments of \<^verbatim>\<open>_prepareSinglePacketData\<close> are dynamically
  typed and the function inspects their type with \<^verbatim>\<open>isinstance\<close>, so they are values
  of a small universe of Python values. A \<^verbatim>\<open>bool\<close> and an \<^verbatim>\<open>IntEnum\<close> member are
  instances of \<^verbatim>\<open>int\<close>; they are represented by \<open>PyInt\<close> of their integer value.
\<close>

type_synonym byte = "8 word"

datatype pyval =
    PyInt int
  | PyNone
  | PyStr string
  | PyBytes "byte list"
  | PyList "pyval list"

text \<open>Every exception the modelled code can raise is a value; \<open>Inl\<close> carries it.\<close>

datatype error =
    ValueError string
  | TypeError
  | IndexError
  | AttributeError
  | FileNotFoundError
  | BleakError
  | OtherError string

fun isinstance_int :: "pyval \<Rightarrow> bool" where
  "isinstance_int (PyInt _) = True"
| "isinstance_int _ = False"

fun isinstance_bytes :: "pyval \<Rightarrow> bool" where
  "isinstance_bytes (PyBytes _) = True"
| "isinstance_bytes _ = False"

text \<open>\<^verbatim>\<open>isinstance(payload, list) and all(isinstance(x, int) for x in payload)\<close>\<close>

fun is_int_list :: "pyval \<Rightarrow> bool" where
  "is_int_list (PyList xs) = list_all isinstance_int xs"
| "is_int_list _ = False"

text \<open>
  \<^verbatim>\<open>len(payload)\<close>. It is only reached for a \<^verbatim>\<open>bytes\<close> or a list; the other
  cases are given for completeness (\<^verbatim>\<open>len\<close> of an int or of None is a TypeError).
\<close>

fun py_len :: "pyval \<Rightarrow> error + nat" where
  "py_len (PyBytes bs) = Inr (length bs)"
| "py_len (PyList xs) = Inr (length xs)"
| "py_len (PyStr s) = Inr (length s)"
| "py_len _ = Inl TypeError"

text \<open>
  \<^verbatim>\<open>bytes(xs)\<close> for a list: every element must be an int in \<^verbatim>\<open>range(0, 256)\<close>,
  otherwise Python raises \<^verbatim>\<open>ValueError: bytes must be in range(0, 256)\<close> (or a
  TypeError for an element that is not an int). \<^verbatim>\<open>bytes(b)\<close> of a bytes object is
  a copy.
\<close>

definition in_byte_range :: "int \<Rightarrow> bool" where
  "in_byte_range x = (0 \<le> x \<and> x < 256)"

fun the_int :: "pyval \<Rightarrow> int" where
  "the_int (PyInt i) = i"
| "the_int _ = 0"

definition bytes_of_ints :: "int list \<Rightarrow> error + byte list" where
  "bytes_of_ints xs =
     (if list_all in_byte_range xs then Inr (map word_of_int xs)
      else Inl (ValueError ''bytes must be in range(0, 256)''))"

fun py_bytes :: "pyval \<Rightarrow> error + byte list" where
  "py_bytes (PyBytes bs) = Inr bs"
| "py_bytes (PyList xs) =
     (if list_all isinstance_int xs then bytes_of_ints (map the_int xs) else Inl TypeError)"
| "py_bytes _ = Inl TypeError"

section \<open>Protocol constants\<close>

datatype LedCommand = POWER | BRIGHTNESS | COLOR

fun LedCommand_value :: "LedCommand \<Rightarrow> int" where
  "LedCommand_value POWER = 0x01"
| "LedCommand_value BRIGHTNESS = 0x04"
| "LedCommand_value COLOR = 0x05"

datatype LedMode = MANUAL | MICROPHONE | SCENES | SEGMENTS

fun LedMode_value :: "LedMode \<Rightarrow> int" where
  "LedMode_value MANUAL = 0x02"
| "LedMode_value MICROPHONE = 0x06"
| "LedMode_value SCENES = 0x05"
| "LedMode_value SEGMENTS = 0x15"

definition SEGMENTED_MODELS :: "string list" where
  "SEGMENTED_MODELS = [''H6053'', ''H6072'', ''H6102'', ''H6199'', ''H617A'', ''H617C'']"

definition PERCENT_MODELS :: "string list" where
  "PERCENT_MODELS = [''H617A'']"

section \<open>The frame codec\<close>

text \<open>
  The checksum loop \<^verbatim>\<open>for b in frame: checksum ^= b\<close> runs over the ints that
  iterating a bytes object yields.
\<close>

definition checksum_of :: "byte list \<Rightarrow> int" where
  "checksum_of frame = fold (\<lambda>b checksum. checksum XOR uint b) frame 0"

text \<open>
  \<^verbatim>\<open>_prepareSinglePacketData(self, cmd, payload)\<close>, statement by statement. Each
  \<^verbatim>\<open>bytes(...)\<close> call is the fallible conversion above, so every point where the
  Python can raise is a branch.
\<close>

definition prepareSinglePacketData :: "pyval \<Rightarrow> pyval \<Rightarrow> error + byte list" where
  "prepareSinglePacketData cmd payload =
     (if \<not> isinstance_int cmd then Inl (ValueError ''Invalid command'')
      else if \<not> isinstance_bytes payload \<and> \<not> is_int_list payload
        then Inl (ValueError ''Invalid payload'')
      else (case py_len payload of
        Inl e \<Rightarrow> Inl e
      | Inr n \<Rightarrow>
          if n > 17 then Inl (ValueError ''Payload too long'')
          else
            (let cmd' = the_int cmd AND 0xFF in
             (case py_bytes payload of
                Inl e \<Rightarrow> Inl e
              | Inr payload' \<Rightarrow>
                 (case bytes_of_ints [0x33, cmd'] of
                    Inl e \<Rightarrow> Inl e
                  | Inr hd2 \<Rightarrow>
                     (let frame = hd2 @ payload' in
                      (case bytes_of_ints (replicate (nat (19 - int (length frame))) 0) of
                         Inl e \<Rightarrow> Inl e
                       | Inr pad \<Rightarrow>
                          (let frame' = frame @ pad;
                               checksum = checksum_of frame'
                           in (case bytes_of_ints [checksum AND 0xFF] of
                                 Inl e \<Rightarrow> Inl e
                               | Inr c \<Rightarrow> Inr (frame' @ c))))))))))"

text \<open>The XOR of a sequence of bytes, as the receiver computes it.\<close>

definition xor_bytes :: "byte list \<Rightarrow> byte" where
  "xor_bytes bs = fold (\<lambda>b acc. acc XOR b) bs 0"

text \<open>
  The first 19 bytes of a frame for command byte \<open>c\<close> and payload bytes \<open>bs\<close>:
  marker, command, payload, zero padding. Used to state what the codec returns.
\<close>

definition frame_body :: "int \<Rightarrow> byte list \<Rightarrow> byte list" where
  "frame_body c bs = [0x33, word_of_int c] @ bs @ replicate (17 - length bs) 0"

text \<open>A payload of byte values: a bytes object, or a list of ints in 0..255.\<close>

fun byte_like :: "pyval \<Rightarrow> bool" where
  "byte_like (PyBytes bs) = True"
| "byte_like (PyList xs) = list_all (\<lambda>v. isinstance_int v \<and> in_byte_range (the_int v)) xs"
| "byte_like _ = False"

section \<open>The light entity\<close>

text \<open>
  The attributes of \<^verbatim>\<open>GoveeBluetoothLight\<close> that the commands read or write
  (\<^verbatim>\<open>self._model\<close>, \<^verbatim>\<open>self._is_segmented\<close>, \<^verbatim>\<open>self._use_percent\<close>,
  \<^verbatim>\<open>self._state\<close>, \<^verbatim>\<open>self._brightness\<close>, \<^verbatim>\<open>self._rgb_color\<close>). The properties
  \<^verbatim>\<open>is_on\<close>, \<^verbatim>\<open>brightness\<close> and \<^verbatim>\<open>rgb_color\<close> return the last three unchanged.
\<close>

record GoveeBluetoothLight =
  self_model :: string
  self_is_segmented :: bool
  self_use_percent :: bool
  self_state :: "bool option"
  self_brightness :: "int option"
  self_rgb_color :: "(int \<times> int \<times> int) option"

definition GoveeBluetoothLight_init :: "string \<Rightarrow> GoveeBluetoothLight" where
  "GoveeBluetoothLight_init m =
     \<lparr> self_model = m,
       self_is_segmented = (m \<in> set SEGMENTED_MODELS),
       self_use_percent = (m \<in> set PERCENT_MODELS),
       self_state = None,
       self_brightness = None,
       self_rgb_color = None \<rparr>"

text \<open>
  The keyword arguments of \<^verbatim>\<open>async_turn_on\<close>: \<open>None\<close> is an absent key. The
  platform passes an int for the brightness, a triple of ints for the colour and a
  string for the effect.
\<close>

record kwargs =
  ATTR_BRIGHTNESS :: "int option"
  ATTR_RGB_COLOR :: "(int \<times> int \<times> int) option"
  ATTR_EFFECT :: "string option"

section \<open>The effect catalogue and the outside world\<close>

text \<open>
  The per-model JSON document under \<^verbatim>\<open>jsons/\<close>, with the schema that
  \<^verbatim>\<open>_load_effect_list\<close> and \<^verbatim>\<open>async_turn_on\<close> read:
  \<^verbatim>\<open>data.categories[].scenes[].lightEffects[].specialEffect[].scenceParam\<close>.
\<close>

record specialEffect =
  scenceParam :: string

record lightEffect =
  scenceName :: string
  specialEffects :: "specialEffect list"

record scene =
  sceneName :: string
  lightEffects :: "lightEffect list"

record category =
  categoryName :: string
  scenes :: "scene list"

type_synonym client = nat

text \<open>
  What the code takes from outside \<^verbatim>\<open>light.py\<close>:
  \<^item> \<open>jsons\<close>: the catalogue file of a model (\<open>None\<close>: no such file);
  \<^item> \<open>b64decode\<close>: \<^verbatim>\<open>base64.b64decode\<close>;
  \<^item> \<open>prepareMultiplePacketsData\<close>: the splitter of \<^verbatim>\<open>govee_utils\<close>, which is not
    part of the sources at hand and stays a parameter;
  \<^item> \<open>establish_connection\<close>: the outcome of the \<open>n\<close>-th call of
    \<^verbatim>\<open>bleak_retry_connector.establish_connection\<close> (\<open>None\<close>: it raised an
    \<^verbatim>\<open>Exception\<close>, \<open>Some c\<close>: it returned the client \<open>c\<close>);
  \<^item> \<open>write_succeeds\<close>: whether the \<open>n\<close>-th \<^verbatim>\<open>write_gatt_char\<close> completes.
\<close>

record env =
  jsons :: "string \<Rightarrow> category list option"
  b64decode :: "string \<Rightarrow> error + byte list"
  prepareMultiplePacketsData :: "int \<Rightarrow> byte list \<Rightarrow> byte list \<Rightarrow> error + byte list list"
  establish_connection :: "nat \<Rightarrow> client option"
  write_succeeds :: "nat \<Rightarrow> bool"

text \<open>
  The state of the wireless side: how many connection attempts and writes were made so
  far, and the frames that reached the device, each with the link it was written on.
\<close>

record ble =
  attempts :: nat
  writes :: nat
  written :: "(client \<times> byte list) list"

text \<open>\<^verbatim>\<open>xs[i]\<close> for an index that is not negative.\<close>

definition py_index :: "'a list \<Rightarrow> nat \<Rightarrow> error + 'a" where
  "py_index xs i = (if i < length xs then Inr (xs ! i) else Inl IndexError)"

section \<open>Parsing the effect name\<close>

text \<open>
  \<^verbatim>\<open>EFFECT_PARSE = re.compile(r"\[(\d+)/(\d+)/(\d+)/(\d+)]")\<close> and its
  \<^verbatim>\<open>search\<close>: the leftmost position where the pattern matches. Each \<^verbatim>\<open>\d+\<close> is
  followed by a literal that is not a digit, so the greedy run of digits is the only
  candidate for the group. Characters are bytes here, so \<^verbatim>\<open>\d\<close> is an ASCII digit.
\<close>

definition is_digit :: "char \<Rightarrow> bool" where
  "is_digit c = (let n = (of_char c :: nat) in 48 \<le> n \<and> n \<le> 57)"

definition match_group :: "char \<Rightarrow> string \<Rightarrow> (string \<times> string) option" where
  "match_group lit s =
     (let ds = takeWhile is_digit s; r = dropWhile is_digit s in
      if ds = [] then None
      else (case r of [] \<Rightarrow> None | c # r' \<Rightarrow> if c = lit then Some (ds, r') else None))"

definition EFFECT_PARSE_match :: "string \<Rightarrow> (string \<times> string \<times> string \<times> string) option" where
  "EFFECT_PARSE_match s =
     (case s of
        [] \<Rightarrow> None
      | c # r \<Rightarrow>
          if c \<noteq> CHR ''['' then None
          else (case match_group CHR ''/'' r of None \<Rightarrow> None | Some (g1, r1) \<Rightarrow>
               (case match_group CHR ''/'' r1 of None \<Rightarrow> None | Some (g2, r2) \<Rightarrow>
               (case match_group CHR ''/'' r2 of None \<Rightarrow> None | Some (g3, r3) \<Rightarrow>
               (case match_group CHR '']'' r3 of None \<Rightarrow> None | Some (g4, r4) \<Rightarrow>
                  Some (g1, g2, g3, g4))))))"

fun EFFECT_PARSE_search :: "string \<Rightarrow> (string \<times> string \<times> string \<times> string) option" where
  "EFFECT_PARSE_search [] = None"
| "EFFECT_PARSE_search (c # cs) =
     (case EFFECT_PARSE_match (c # cs) of
        Some g \<Rightarrow> Some g
      | None \<Rightarrow> EFFECT_PARSE_search cs)"

text \<open>
  \<^verbatim>\<open>int(s)\<close> for a string of decimal digits. \<open>int_of_digits\<close> is the number the
  digits denote. CPython (3.11 and later, and the security releases of the earlier
  versions) refuses to convert a decimal string of more than
  \<^verbatim>\<open>sys.int_max_str_digits\<close> digits, 4300 by default, leading zeros included, and
  raises \<^verbatim>\<open>ValueError: Exceeds the limit (4300 digits) for integer string conversion\<close>.
\<close>

definition int_of_digits :: "string \<Rightarrow> nat" where
  "int_of_digits s = fold (\<lambda>c n. 10 * n + (of_char c - 48)) s 0"

definition int_max_str_digits :: nat where
  "int_max_str_digits = 4300"

definition py_int :: "string \<Rightarrow> error + nat" where
  "py_int s =
     (if int_max_str_digits < length s
      then Inl (ValueError ''Exceeds the limit (4300 digits) for integer string conversion'')
      else Inr (int_of_digits s))"

section \<open>The transport\<close>

text \<open>
  \<^verbatim>\<open>_connectBluetooth\<close>: the loop \<^verbatim>\<open>for _ in range(3)\<close> returns the client of
  the first attempt that does not raise and swallows the exception of an attempt that
  does. After the loop the Python function ends without a \<^verbatim>\<open>return\<close> or a
  \<^verbatim>\<open>raise\<close>, so its value is then \<^verbatim>\<open>None\<close>: the result is a \<open>client option\<close>.
  Every failure of an attempt is an \<^verbatim>\<open>Exception\<close> that the loop catches; each attempt,
  failed or not, is counted in \<open>attempts\<close>.
\<close>

fun connect_attempts :: "env \<Rightarrow> nat \<Rightarrow> ble \<Rightarrow> client option \<times> ble" where
  "connect_attempts e 0 w = (None, w)"
| "connect_attempts e (Suc k) w =
     (case establish_connection e (attempts w) of
        Some c \<Rightarrow> (Some c, w\<lparr>attempts := Suc (attempts w)\<rparr>)
      | None \<Rightarrow> connect_attempts e k (w\<lparr>attempts := Suc (attempts w)\<rparr>))"

definition connectBluetooth :: "env \<Rightarrow> ble \<Rightarrow> client option \<times> ble" where
  "connectBluetooth e w = connect_attempts e 3 w"

text \<open>
  \<^verbatim>\<open>client.write_gatt_char(UUID_CONTROL_CHARACTERISTIC, command, False)\<close>: a write
  that completes appends the frame to what the device received; one that does not
  raises the transport's error and delivers nothing.
\<close>

definition write_gatt_char :: "env \<Rightarrow> client \<Rightarrow> byte list \<Rightarrow> ble \<Rightarrow> (error + unit) \<times> ble" where
  "write_gatt_char e c command w =
     (if write_succeeds e (writes w)
      then (Inr (), w\<lparr>writes := Suc (writes w), written := written w @ [(c, command)]\<rparr>)
      else (Inl BleakError, w\<lparr>writes := Suc (writes w)\<rparr>))"

text \<open>
  The delivery loop of \<^verbatim>\<open>async_turn_on\<close>:
  \<^verbatim>\<open>for command in commands: client = await self._connectBluetooth(); await client.write_gatt_char(...)\<close>.
  When \<^verbatim>\<open>_connectBluetooth\<close> returned \<^verbatim>\<open>None\<close>, the attribute access
  \<^verbatim>\<open>client.write_gatt_char\<close> raises AttributeError.
\<close>

fun send_commands :: "env \<Rightarrow> byte list list \<Rightarrow> ble \<Rightarrow> (error + unit) \<times> ble" where
  "send_commands e [] w = (Inr (), w)"
| "send_commands e (command # commands) w =
     (case connectBluetooth e w of
        (None, w1) \<Rightarrow> (Inl AttributeError, w1)
      | (Some c, w1) \<Rightarrow>
          (case write_gatt_char e c command w1 of
             (Inl err, w2) \<Rightarrow> (Inl err, w2)
           | (Inr u, w2) \<Rightarrow> send_commands e commands w2))"

section \<open>The command builder\<close>

text \<open>
  \<^verbatim>\<open>int(brightness * 100 / 255)\<close>: a true division and a truncation towards zero.
  The division is a floating-point one in Python; the quotient of an int below
  \<open>2^45\<close> in absolute value by 255 is either an integer or at least \<open>1/255\<close> away
  from one, which is more than the rounding error, so the truncated result is the
  truncated exact quotient. That is what is defined here.
\<close>

definition trunc_quotient :: "int \<Rightarrow> int \<Rightarrow> int" where
  "trunc_quotient a b = sgn a * sgn b * (\<bar>a\<bar> div \<bar>b\<bar>)"

definition brightnessPercent :: "int \<Rightarrow> int" where
  "brightnessPercent brightness = trunc_quotient (brightness * 100) 255"

text \<open>The block \<^verbatim>\<open>if ATTR_BRIGHTNESS in kwargs:\<close>.\<close>

definition turn_on_brightness ::
  "GoveeBluetoothLight \<Rightarrow> kwargs \<Rightarrow> byte list list \<Rightarrow> error + (byte list list \<times> GoveeBluetoothLight)" where
  "turn_on_brightness self kw commands =
     (case ATTR_BRIGHTNESS kw of
        None \<Rightarrow> Inr (commands, self)
      | Some brightness \<Rightarrow>
          (case (if self_use_percent self
                 then prepareSinglePacketData (PyInt (LedCommand_value BRIGHTNESS))
                        (PyList [PyInt (brightnessPercent brightness)])
                 else prepareSinglePacketData (PyInt (LedCommand_value BRIGHTNESS))
                        (PyList [PyInt brightness])) of
             Inl err \<Rightarrow> Inl err
           | Inr f \<Rightarrow> Inr (commands @ [f], self\<lparr>self_brightness := Some brightness\<rparr>)))"

text \<open>The block \<^verbatim>\<open>if ATTR_RGB_COLOR in kwargs:\<close>.\<close>

definition turn_on_color ::
  "GoveeBluetoothLight \<Rightarrow> kwargs \<Rightarrow> byte list list \<Rightarrow> error + (byte list list \<times> GoveeBluetoothLight)" where
  "turn_on_color self kw commands =
     (case ATTR_RGB_COLOR kw of
        None \<Rightarrow> Inr (commands, self)
      | Some (red, green, blue) \<Rightarrow>
          (case (if self_is_segmented self
                 then prepareSinglePacketData (PyInt (LedCommand_value COLOR))
                        (PyList [PyInt (LedMode_value SEGMENTS), PyInt 0x01,
                                 PyInt red, PyInt green, PyInt blue,
                                 PyInt 0x00, PyInt 0x00, PyInt 0x00, PyInt 0x00, PyInt 0x00,
                                 PyInt 0xFF, PyInt 0x7F])
                 else prepareSinglePacketData (PyInt (LedCommand_value COLOR))
                        (PyList [PyInt (LedMode_value MANUAL), PyInt red, PyInt green, PyInt blue])) of
             Inl err \<Rightarrow> Inl err
           | Inr f \<Rightarrow> Inr (commands @ [f], self\<lparr>self_rgb_color := Some (red, green, blue)\<rparr>)))"

text \<open>
  The block \<^verbatim>\<open>if ATTR_EFFECT in kwargs:\<close>. An empty effect name and a name the
  pattern does not match add nothing. The list comprehension converts the four groups
  with \<^verbatim>\<open>int\<close>, in order, before the catalogue is read; then the four list accesses
  raise IndexError for an index past the end.
\<close>

definition turn_on_effect ::
  "env \<Rightarrow> GoveeBluetoothLight \<Rightarrow> kwargs \<Rightarrow> byte list list \<Rightarrow> error + byte list list" where
  "turn_on_effect e self kw commands =
     (case ATTR_EFFECT kw of
        None \<Rightarrow> Inr commands
      | Some effect \<Rightarrow>
          if effect = [] then Inr commands
          else (case EFFECT_PARSE_search effect of
             None \<Rightarrow> Inr commands
           | Some (g1, g2, g3, g4) \<Rightarrow>
              (case py_int g1 of Inl err \<Rightarrow> Inl err | Inr i1 \<Rightarrow>
              (case py_int g2 of Inl err \<Rightarrow> Inl err | Inr i2 \<Rightarrow>
              (case py_int g3 of Inl err \<Rightarrow> Inl err | Inr i3 \<Rightarrow>
              (case py_int g4 of Inl err \<Rightarrow> Inl err | Inr i4 \<Rightarrow>
              (case jsons e (self_model self) of
                 None \<Rightarrow> Inl FileNotFoundError
               | Some categories \<Rightarrow>
                  (case py_index categories i1 of Inl err \<Rightarrow> Inl err | Inr category \<Rightarrow>
                  (case py_index (scenes category) i2 of Inl err \<Rightarrow> Inl err | Inr scene \<Rightarrow>
                  (case py_index (lightEffects scene) i3 of Inl err \<Rightarrow> Inl err | Inr lightEffect \<Rightarrow>
                  (case py_index (specialEffects lightEffect) i4 of Inl err \<Rightarrow> Inl err | Inr specialEffect \<Rightarrow>
                  (case b64decode e (scenceParam specialEffect) of Inl err \<Rightarrow> Inl err | Inr blob \<Rightarrow>
                  (case prepareMultiplePacketsData e 0xA3 [0x02] blob of Inl err \<Rightarrow> Inl err | Inr frames \<Rightarrow>
                     Inr (commands @ frames))))))))))))))"

text \<open>
  Lines 134 to 177 of \<^verbatim>\<open>async_turn_on\<close>: the list \<^verbatim>\<open>commands\<close>, with the entity
  as the assignments made up to that point leave it. An exception ends the function
  with the entity as it is then.
\<close>

definition turn_on_commands ::
  "env \<Rightarrow> GoveeBluetoothLight \<Rightarrow> kwargs \<Rightarrow> (error + byte list list) \<times> GoveeBluetoothLight" where
  "turn_on_commands e self kw =
     (case prepareSinglePacketData (PyInt (LedCommand_value POWER)) (PyList [PyInt 0x1]) of
        Inl err \<Rightarrow> (Inl err, self)
      | Inr p \<Rightarrow>
         (let self1 = self\<lparr>self_state := Some True\<rparr> in
          (case turn_on_brightness self1 kw [p] of
             Inl err \<Rightarrow> (Inl err, self1)
           | Inr (commands2, self2) \<Rightarrow>
              (case turn_on_color self2 kw commands2 of
                 Inl err \<Rightarrow> (Inl err, self2)
               | Inr (commands3, self3) \<Rightarrow>
                  (case turn_on_effect e self3 kw commands3 of
                     Inl err \<Rightarrow> (Inl err, self3)
                   | Inr commands4 \<Rightarrow> (Inr commands4, self3))))))"

definition async_turn_on ::
  "env \<Rightarrow> GoveeBluetoothLight \<Rightarrow> kwargs \<Rightarrow> ble \<Rightarrow> (error + unit) \<times> GoveeBluetoothLight \<times> ble" where
  "async_turn_on e self kw w =
     (case turn_on_commands e self kw of
        (Inl err, self') \<Rightarrow> (Inl err, self', w)
      | (Inr commands, self') \<Rightarrow>
          (case send_commands e commands w of (r, w') \<Rightarrow> (r, self', w')))"

definition async_turn_off ::
  "env \<Rightarrow> GoveeBluetoothLight \<Rightarrow> ble \<Rightarrow> (error + unit) \<times> GoveeBluetoothLight \<times> ble" where
  "async_turn_off e self w =
     (case connectBluetooth e w of
        (None, w1) \<Rightarrow> (Inl AttributeError, self, w1)
      | (Some c, w1) \<Rightarrow>
          (case prepareSinglePacketData (PyInt (LedCommand_value POWER)) (PyList [PyInt 0x0]) of
             Inl err \<Rightarrow> (Inl err, self, w1)
           | Inr f \<Rightarrow>
              (case write_gatt_char e c f w1 of
                 (Inl err, w2) \<Rightarrow> (Inl err, self, w2)
               | (Inr u, w2) \<Rightarrow> (Inr (), self\<lparr>self_state := Some False\<rparr>, w2))))"

section \<open>Well-formed intents and example inputs\<close>

text \<open>
  The platform validates a turn-on call before the entity sees it: the brightness and
  each colour channel are ints in 0..255. \<open>valid_kwargs\<close> states this.
\<close>

definition valid_kwargs :: "kwargs \<Rightarrow> bool" where
  "valid_kwargs kw =
     ((case ATTR_BRIGHTNESS kw of None \<Rightarrow> True | Some b \<Rightarrow> in_byte_range b) \<and>
      (case ATTR_RGB_COLOR kw of
         None \<Rightarrow> True
       | Some (r, g, b) \<Rightarrow> in_byte_range r \<and> in_byte_range g \<and> in_byte_range b))"

text \<open>
  Concrete inputs for the closed instances below: a catalogue with one category, whose
  only parameter blob \<^verbatim>\<open>AQID\<close> is the base64 text of the bytes 1, 2, 3; an environment
  whose connection outcomes are a parameter, whose writes complete and whose splitter is
  a stand-in that emits one frame made of the marker, the prefix and the data; the
  initial state of the wireless side and three turn-on intents.
\<close>

definition example_catalog :: "category list" where
  "example_catalog =
     [\<lparr>categoryName = ''Life'',
       scenes = [\<lparr>sceneName = ''Movie'',
                  lightEffects = [\<lparr>scenceName = ''Movie'',
                                   specialEffects = [\<lparr>scenceParam = ''AQID''\<rparr>]\<rparr>]\<rparr>]\<rparr>]"

definition example_env :: "(nat \<Rightarrow> client option) \<Rightarrow> env" where
  "example_env conn =
     \<lparr>jsons = (\<lambda>m. Some example_catalog),
      b64decode = (\<lambda>s. if s = ''AQID'' then Inr [1, 2, 3] else Inl (OtherError ''binascii.Error'')),
      prepareMultiplePacketsData = (\<lambda>m p d. Inr [word_of_int m # p @ d]),
      establish_connection = conn,
      write_succeeds = (\<lambda>n. True)\<rparr>"

definition ble0 :: ble where
  "ble0 = \<lparr>attempts = 0, writes = 0, written = []\<rparr>"

definition kw_128_red :: kwargs where
  "kw_128_red = \<lparr>ATTR_BRIGHTNESS = Some 128, ATTR_RGB_COLOR = Some (255, 0, 0), ATTR_EFFECT = None\<rparr>"


definition kw_effect_9 :: kwargs where
  "kw_effect_9 = \<lparr>ATTR_BRIGHTNESS = Some 128, ATTR_RGB_COLOR = Some (255, 0, 0),
                   ATTR_EFFECT = Some ''Life - Movie - Movie [9/0/0/0]''\<rparr>"

section \<open>Connections made for the frames of one command\<close>

text \<open>
  \<open>connection_runs e a conns\<close> describes consecutive calls of \<^verbatim>\<open>_connectBluetooth\<close>
  that each returned a client, the first one starting when \<open>a\<close> attempts had been made:
  \<open>conns\<close> lists, call by call, the number of the attempt that succeeded and the client
  it returned. A call makes at most three attempts, every attempt of the call before the
  successful one failed, and the next call starts with the attempt after it.
\<close>

fun connection_runs :: "env \<Rightarrow> nat \<Rightarrow> (nat \<times> client) list \<Rightarrow> bool" where
  "connection_runs e a [] = True"
| "connection_runs e a ((i, c) # conns) =
     (a \<le> i \<and> i < a + 3 \<and>
      list_all (\<lambda>j. establish_connection e j = None) [a..<i] \<and>
      establish_connection e i = Some c \<and>
      connection_runs e (Suc i) conns)"

section \<open>Facts about the frame codec\<close>

lemma and_ff_range: "in_byte_range ((x::int) AND 0xFF)"
  unfolding in_byte_range_def
  by (simp add: AND_upper2' flip: less_Suc_eq_le)

lemma woi_and_ff: "(word_of_int ((x::int) AND 0xFF) :: byte) = word_of_int x"
proof -
  have m: "(255 :: byte) = - 1" by simp
  have "(word_of_int (x AND 0xFF) :: byte) = word_of_int x AND 255"
    by (simp add: of_int_and_eq)
  also have "\<dots> = word_of_int x" unfolding m by simp
  finally show ?thesis .
qed

lemma woi_fold:
  "(word_of_int (fold (\<lambda>b c. c XOR uint b) xs c0) :: byte) =
     fold (\<lambda>b acc. acc XOR b) xs (word_of_int c0)"
  by (induction xs arbitrary: c0) (simp_all add: of_int_xor_eq)

lemma checksum_byte: "(word_of_int (checksum_of frame AND 0xFF) :: byte) = xor_bytes frame"
  by (simp only: woi_and_ff checksum_of_def xor_bytes_def woi_fold) simp

lemma header_bytes: "bytes_of_ints [0x33, c AND 0xFF] = Inr [0x33, word_of_int c]"
  using and_ff_range [of c] by (simp add: bytes_of_ints_def in_byte_range_def woi_and_ff)

lemma pad_bytes: "bytes_of_ints (replicate n 0) = Inr (replicate n 0)"
  by (simp add: bytes_of_ints_def in_byte_range_def list_all_iff)

lemma checksum_bytes: "bytes_of_ints [checksum_of frame AND 0xFF] = Inr [xor_bytes frame]"
  using and_ff_range [of "checksum_of frame"] by (simp add: bytes_of_ints_def checksum_byte)

lemma byte_like_py_bytes:
  "byte_like p \<Longrightarrow> \<exists>bs. py_bytes p = Inr bs \<and> py_len p = Inr (length bs)"
proof (cases p)
  case (PyList xs)
  assume "byte_like p"
  with PyList have a: "list_all isinstance_int xs"
    and b: "list_all in_byte_range (map the_int xs)"
    by (simp_all add: list_all_iff)
  then show ?thesis using PyList by (simp add: bytes_of_ints_def)
qed simp_all

lemma byte_like_valid: "byte_like p \<Longrightarrow> isinstance_bytes p \<or> is_int_list p"
  by (cases p) (simp_all add: list_all_iff)

text \<open>The frame the codec returns once all its checks pass.\<close>

lemma prepare_frame:
  assumes c: "isinstance_int cmd"
    and v: "isinstance_bytes payload \<or> is_int_list payload"
    and b: "py_bytes payload = Inr bs"
    and l: "py_len payload = Inr (length bs)"
    and n: "length bs \<le> 17"
  shows "prepareSinglePacketData cmd payload =
           Inr (frame_body (the_int cmd) bs @ [xor_bytes (frame_body (the_int cmd) bs)])"
proof -
  have pad: "nat (17 - int (length bs)) = 17 - length bs"
    using n by simp
  show ?thesis
    unfolding prepareSinglePacketData_def Let_def
    using c v n
    by (simp add: b l header_bytes pad_bytes checksum_bytes frame_body_def pad del: replicate_Suc)
qed

lemma length_frame_body: "length bs \<le> 17 \<Longrightarrow> length (frame_body c bs) = 19"
  by (simp add: frame_body_def)

lemma prepare_int_list:
  assumes r: "list_all in_byte_range xs" and n: "length xs \<le> 17"
  shows "prepareSinglePacketData (PyInt c) (PyList (map PyInt xs)) =
           Inr (frame_body c (map word_of_int xs) @ [xor_bytes (frame_body c (map word_of_int xs))])"
proof -
  have m: "map (the_int \<circ> PyInt) xs = xs" by (induction xs) simp_all
  have i: "list_all isinstance_int (map PyInt xs)" by (induction xs) simp_all
  have "prepareSinglePacketData (PyInt c) (PyList (map PyInt xs)) =
          Inr (frame_body (the_int (PyInt c)) (map word_of_int xs) @
               [xor_bytes (frame_body (the_int (PyInt c)) (map word_of_int xs))])"
    by (rule prepare_frame) (simp_all add: i m r n bytes_of_ints_def)
  then show ?thesis by simp
qed

text \<open>
  Claim C1. For every command code and every payload of byte values (a bytes object or
  a list of ints in 0..255) of length at most 17, \<^verbatim>\<open>_prepareSinglePacketData\<close> returns
  a frame of exactly 20 bytes, and its byte 19 is the XOR of its bytes 0 to 18.
\<close>

theorem C1_frame_length_and_checksum:
  assumes "byte_like payload" and "py_len payload = Inr n" and "n \<le> 17"
  shows "\<exists>frame. prepareSinglePacketData (PyInt cmd) payload = Inr frame \<and>
           length frame = 20 \<and> frame ! 19 = xor_bytes (take 19 frame)"
proof -
  from assms(1) obtain bs
    where bs: "py_bytes payload = Inr bs" "py_len payload = Inr (length bs)"
    using byte_like_py_bytes by blast
  with assms have n: "length bs \<le> 17" by simp
  let ?body = "frame_body cmd bs"
  have f: "prepareSinglePacketData (PyInt cmd) payload = Inr (?body @ [xor_bytes ?body])"
    using prepare_frame [of "PyInt cmd" payload bs] byte_like_valid [OF assms(1)] bs n by simp
  have l: "length ?body = 19" using n by (rule length_frame_body)
  have "(?body @ [xor_bytes ?body]) ! 19 = xor_bytes ?body"
    using l by (simp add: nth_append)
  moreover have "take 19 (?body @ [xor_bytes ?body]) = ?body" using l by simp
  ultimately show ?thesis using f l by simp
qed

theorem C1_frame_length_and_checksum_witness:
  "byte_like (PyList [PyInt 1]) \<and> py_len (PyList [PyInt 1]) = Inr 1 \<and> (1::nat) \<le> 17 \<and>
   (\<exists>frame. prepareSinglePacketData (PyInt 1) (PyList [PyInt 1]) = Inr frame \<and>
           length frame = 20 \<and> frame ! 19 = xor_bytes (take 19 frame))"
proof -
  have a: "byte_like (PyList [PyInt 1])" by (simp add: in_byte_range_def)
  have b: "py_len (PyList [PyInt 1]) = Inr 1" by simp
  have c: "(1::nat) \<le> 17" by simp
  show ?thesis using a b c C1_frame_length_and_checksum [OF a b c, of 1] by blast
qed

text \<open>
  Claim C6. For every payload of length greater than 17, \<^verbatim>\<open>_prepareSinglePacketData\<close>
  fails with a ValueError (the error the specification calls InvalidPayload) and returns
  no frame, so nothing is truncated; when the command is an int and the payload is a
  bytes object or a list of ints, the error is \<^verbatim>\<open>ValueError('Payload too long')\<close>.
\<close>

theorem C6_oversized_payload_rejected:
  assumes "py_len payload = Inr n" and "17 < n"
  shows "(\<exists>msg. prepareSinglePacketData cmd payload = Inl (ValueError msg)) \<and>
         (isinstance_int cmd \<and> (isinstance_bytes payload \<or> is_int_list payload) \<longrightarrow>
            prepareSinglePacketData cmd payload = Inl (ValueError ''Payload too long''))"
  using assms by (auto simp: prepareSinglePacketData_def)

theorem C6_oversized_payload_rejected_witness:
  "py_len (PyBytes (replicate 18 7)) = Inr 18 \<and> (17::nat) < 18 \<and>
   prepareSinglePacketData (PyInt 5) (PyBytes (replicate 18 7)) =
     Inl (ValueError ''Payload too long'')"
proof -
  have a: "py_len (PyBytes (replicate 18 7)) = Inr 18" by simp
  have b: "(17::nat) < 18" by simp
  show ?thesis
    using a b C6_oversized_payload_rejected [OF a b, of "PyInt 5"] by simp
qed

text \<open>
  Claim C10. The validation of the payload looks at types only: a list is accepted when
  all its elements are ints. So a list of at most 17 ints in 0..255 gives a frame; a
  list of at most 17 ints with one outside 0..255 passes the validation and the length
  check and fails at \<^verbatim>\<open>bytes(payload)\<close> with
  \<^verbatim>\<open>ValueError: bytes must be in range(0, 256)\<close>; a list with an element that is
  not an int is what the validation rejects.
\<close>

theorem C10_payload_validation_checks_type_only:
  "(list_all in_byte_range xs \<and> length xs \<le> 17 \<longrightarrow>
      (\<exists>frame. prepareSinglePacketData (PyInt c) (PyList (map PyInt xs)) = Inr frame)) \<and>
   (\<not> list_all in_byte_range ys \<and> length ys \<le> 17 \<longrightarrow>
      (isinstance_bytes (PyList (map PyInt ys)) \<or> is_int_list (PyList (map PyInt ys))) \<and>
      prepareSinglePacketData (PyInt c) (PyList (map PyInt ys)) =
        Inl (ValueError ''bytes must be in range(0, 256)'')) \<and>
   (\<not> list_all isinstance_int zs \<longrightarrow>
      prepareSinglePacketData (PyInt c) (PyList zs) = Inl (ValueError ''Invalid payload''))"
proof (intro conjI impI)
  assume "list_all in_byte_range xs \<and> length xs \<le> 17"
  then show "\<exists>frame. prepareSinglePacketData (PyInt c) (PyList (map PyInt xs)) = Inr frame"
    using prepare_int_list [of xs c] by simp
next
  have i: "list_all isinstance_int (map PyInt ys)" by (induction ys) simp_all
  then show "isinstance_bytes (PyList (map PyInt ys)) \<or> is_int_list (PyList (map PyInt ys))"
    by simp
  have m: "map (the_int \<circ> PyInt) ys = ys" by (induction ys) simp_all
  assume "\<not> list_all in_byte_range ys \<and> length ys \<le> 17"
  then show "prepareSinglePacketData (PyInt c) (PyList (map PyInt ys)) =
        Inl (ValueError ''bytes must be in range(0, 256)'')"
    by (simp add: prepareSinglePacketData_def i m bytes_of_ints_def)
next
  assume "\<not> list_all isinstance_int zs"
  then show "prepareSinglePacketData (PyInt c) (PyList zs) = Inl (ValueError ''Invalid payload'')"
    by (simp add: prepareSinglePacketData_def)
qed

theorem C10_payload_validation_checks_type_only_witness:
  "(\<exists>frame. prepareSinglePacketData (PyInt 4) (PyList [PyInt 1, PyInt 255]) = Inr frame) \<and>
   is_int_list (PyList [PyInt 300]) \<and>
   prepareSinglePacketData (PyInt 4) (PyList [PyInt 300]) =
     Inl (ValueError ''bytes must be in range(0, 256)'') \<and>
   prepareSinglePacketData (PyInt 4) (PyList [PyInt 1, PyNone]) =
     Inl (ValueError ''Invalid payload'')"
  using C10_payload_validation_checks_type_only
    [where xs = "[1, 255]" and ys = "[300]" and zs = "[PyInt 1, PyNone]" and c = 4]
  by (simp add: in_byte_range_def)

section \<open>Brightness and colour frames\<close>

lemma brightnessPercent_nonneg: "0 \<le> b \<Longrightarrow> brightnessPercent b = b * 100 div 255"
  by (simp add: brightnessPercent_def trunc_quotient_def sgn_if)

lemma brightnessPercent_range:
  assumes "0 \<le> b" "b \<le> 255" shows "in_byte_range (brightnessPercent b)"
proof -
  have "0 \<le> b * 100 div 255 \<and> b * 100 div 255 < 256" using assms by arith
  then show ?thesis using assms(1) by (simp only: brightnessPercent_nonneg in_byte_range_def)
qed

lemma brightness_frame:
  assumes "in_byte_range x"
  shows "prepareSinglePacketData (PyInt (LedCommand_value BRIGHTNESS)) (PyList [PyInt x]) =
     Inr (frame_body 4 [word_of_int x] @ [xor_bytes (frame_body 4 [word_of_int x])])"
  using prepare_int_list [of "[x]" 4] assms by simp

lemma frame_body_single:
  "frame_body c [x] @ [xor_bytes (frame_body c [x])] =
     [0x33, word_of_int c, x, 0, 0, 0, 0, 0, 0, 0, 0, 0, 0, 0, 0, 0, 0, 0, 0,
      0x33 XOR word_of_int c XOR x]"
  by (simp add: frame_body_def xor_bytes_def numeral_eq_Suc xor.assoc)

text \<open>
  Claim C7. On a model with \<^verbatim>\<open>_use_percent\<close> set, the Brightness frame for a level
  \<open>b\<close> in 0..255 carries the byte \<open>b * 100 div 255\<close>, the truncation of
  \<open>b * 100 / 255\<close>; 255 gives 100, 0 gives 0, and the mapping is monotone on 0..255.
\<close>

theorem C7_percent_brightness:
  assumes "self_use_percent self" and "ATTR_BRIGHTNESS kw = Some b" and "0 \<le> b" and "b \<le> 255"
  shows "turn_on_brightness self kw commands =
           Inr (commands @
                  [[0x33, 0x04, word_of_int (b * 100 div 255),
                    0, 0, 0, 0, 0, 0, 0, 0, 0, 0, 0, 0, 0, 0, 0, 0,
                    0x33 XOR 0x04 XOR word_of_int (b * 100 div 255)]],
                self\<lparr>self_brightness := Some b\<rparr>) \<and>
         brightnessPercent b = b * 100 div 255 \<and>
         brightnessPercent 255 = 100 \<and> brightnessPercent 0 = 0 \<and>
         (\<forall>b'. b \<le> b' \<and> b' \<le> 255 \<longrightarrow> brightnessPercent b \<le> brightnessPercent b')"
proof -
  let ?x = "brightnessPercent b"
  have p: "?x = b * 100 div 255" using assms(3) by (rule brightnessPercent_nonneg)
  have "turn_on_brightness self kw commands =
          Inr (commands @ [frame_body 4 [word_of_int ?x] @ [xor_bytes (frame_body 4 [word_of_int ?x])]],
               self\<lparr>self_brightness := Some b\<rparr>)"
    using assms brightness_frame [OF brightnessPercent_range [OF assms(3,4)]]
    by (simp add: turn_on_brightness_def)
  then have f: "turn_on_brightness self kw commands =
           Inr (commands @
                  [[0x33, 0x04, word_of_int (b * 100 div 255),
                    0, 0, 0, 0, 0, 0, 0, 0, 0, 0, 0, 0, 0, 0, 0, 0,
                    0x33 XOR 0x04 XOR word_of_int (b * 100 div 255)]],
                self\<lparr>self_brightness := Some b\<rparr>)"
    by (simp only: frame_body_single p) simp
  have e: "brightnessPercent 255 = 100" "brightnessPercent 0 = 0"
    by (simp_all add: brightnessPercent_def trunc_quotient_def)
  have "\<forall>b'. b \<le> b' \<and> b' \<le> 255 \<longrightarrow> brightnessPercent b \<le> brightnessPercent b'"
  proof (intro allI impI)
    fix b' assume h: "b \<le> b' \<and> b' \<le> 255"
    then have "0 \<le> b'" using assms(3) by simp
    then have "brightnessPercent b' = b' * 100 div 255" by (rule brightnessPercent_nonneg)
    moreover have "b * 100 div 255 \<le> b' * 100 div 255"
      using h by (intro zdiv_mono1) simp_all
    ultimately show "brightnessPercent b \<le> brightnessPercent b'" using p by simp
  qed
  with f p e show ?thesis by blast
qed

theorem C7_percent_brightness_witness:
  "self_use_percent (GoveeBluetoothLight_init ''H617A'') \<and>
   turn_on_brightness (GoveeBluetoothLight_init ''H617A'')
       \<lparr>ATTR_BRIGHTNESS = Some 128, ATTR_RGB_COLOR = None, ATTR_EFFECT = None\<rparr> [] =
     Inr ([[0x33, 0x04, 50, 0, 0, 0, 0, 0, 0, 0, 0, 0, 0, 0, 0, 0, 0, 0, 0, 0x05]],
          (GoveeBluetoothLight_init ''H617A'')\<lparr>self_brightness := Some 128\<rparr>) \<and>
   brightnessPercent 128 = 50 \<and> brightnessPercent 255 = 100 \<and> brightnessPercent 0 = 0 \<and>
   brightnessPercent 128 \<le> brightnessPercent 200"
proof -
  have a: "self_use_percent (GoveeBluetoothLight_init ''H617A'')"
    by (simp add: GoveeBluetoothLight_init_def PERCENT_MODELS_def)
  have b: "ATTR_BRIGHTNESS \<lparr>ATTR_BRIGHTNESS = Some 128, ATTR_RGB_COLOR = None, ATTR_EFFECT = None\<rparr> = Some 128"
    by simp
  have c: "(0::int) \<le> 128" "(128::int) \<le> 255" by simp_all
  note t = C7_percent_brightness [OF a b c, of "[]"]
  from t have "\<forall>b'. 128 \<le> b' \<and> b' \<le> 255 \<longrightarrow> brightnessPercent 128 \<le> brightnessPercent b'"
    by (elim conjE)
  then have "(128::int) \<le> 200 \<and> (200::int) \<le> 255 \<longrightarrow> brightnessPercent 128 \<le> brightnessPercent 200"
    by (rule spec)
  then have m: "brightnessPercent 128 \<le> brightnessPercent 200" by simp
  from t have "turn_on_brightness (GoveeBluetoothLight_init ''H617A'')
       \<lparr>ATTR_BRIGHTNESS = Some 128, ATTR_RGB_COLOR = None, ATTR_EFFECT = None\<rparr> [] =
     Inr ([[0x33, 0x04, 50, 0, 0, 0, 0, 0, 0, 0, 0, 0, 0, 0, 0, 0, 0, 0, 0, 0x05]],
          (GoveeBluetoothLight_init ''H617A'')\<lparr>self_brightness := Some 128\<rparr>) \<and>
      brightnessPercent 128 = 50 \<and> brightnessPercent 255 = 100 \<and> brightnessPercent 0 = 0"
    by simp
  with a m show ?thesis by blast
qed

text \<open>
  Claim C8. On a segmented model the colour block adds one frame with command COLOR
  (0x05) and payload \<open>[0x15, 0x01, red, green, blue, 0, 0, 0, 0, 0, 0xFF, 0x7F]\<close>,
  padded with zeros to 17 bytes and followed by the checksum, whatever else the keyword
  arguments hold; for the colour (10, 20, 30) the checksum is 162.
\<close>

theorem C8_segmented_color_frame:
  assumes "self_is_segmented self" and "ATTR_RGB_COLOR kw = Some (r, g, b)"
    and "in_byte_range r" and "in_byte_range g" and "in_byte_range b"
  shows "turn_on_color self kw commands =
           Inr (commands @
                  [[0x33, 0x05, 0x15, 0x01, word_of_int r, word_of_int g, word_of_int b,
                    0, 0, 0, 0, 0, 0xFF, 0x7F, 0, 0, 0, 0, 0,
                    xor_bytes [0x33, 0x05, 0x15, 0x01, word_of_int r, word_of_int g, word_of_int b,
                               0, 0, 0, 0, 0, 0xFF, 0x7F, 0, 0, 0, 0, 0]]],
                self\<lparr>self_rgb_color := Some (r, g, b)\<rparr>)"
proof -
  have "prepareSinglePacketData (PyInt 5)
          (PyList (map PyInt [0x15, 0x01, r, g, b, 0, 0, 0, 0, 0, 0xFF, 0x7F])) =
        Inr (frame_body 5 (map word_of_int [0x15, 0x01, r, g, b, 0, 0, 0, 0, 0, 0xFF, 0x7F]) @
             [xor_bytes (frame_body 5 (map word_of_int [0x15, 0x01, r, g, b, 0, 0, 0, 0, 0, 0xFF, 0x7F]))])"
    by (rule prepare_int_list) (use assms(3-5) in \<open>simp_all add: in_byte_range_def\<close>)
  then show ?thesis using assms(1,2)
    by (simp add: turn_on_color_def frame_body_def numeral_eq_Suc)
qed

theorem C8_segmented_color_frame_witness:
  "self_is_segmented (GoveeBluetoothLight_init ''H6053'') \<and>
   turn_on_color (GoveeBluetoothLight_init ''H6053'')
       \<lparr>ATTR_BRIGHTNESS = None, ATTR_RGB_COLOR = Some (10, 20, 30), ATTR_EFFECT = None\<rparr> [] =
     Inr ([[0x33, 0x05, 0x15, 0x01, 10, 20, 30, 0, 0, 0, 0, 0, 0xFF, 0x7F, 0, 0, 0, 0, 0, 162]],
          (GoveeBluetoothLight_init ''H6053'')\<lparr>self_rgb_color := Some (10, 20, 30)\<rparr>)"
proof -
  have a: "self_is_segmented (GoveeBluetoothLight_init ''H6053'')"
    by (simp add: GoveeBluetoothLight_init_def SEGMENTED_MODELS_def)
  have b: "ATTR_RGB_COLOR \<lparr>ATTR_BRIGHTNESS = None, ATTR_RGB_COLOR = Some (10, 20, 30), ATTR_EFFECT = None\<rparr> = Some (10, 20, 30)"
    by simp
  have c: "in_byte_range 10" "in_byte_range 20" "in_byte_range 30" by (simp_all add: in_byte_range_def)
  show ?thesis using a C8_segmented_color_frame [OF a b c, of "[]"] by (simp add: xor_bytes_def)
qed

section \<open>The behaviour of the transport\<close>

lemma connect_attempts_frame:
  "connect_attempts e k w = (r, w') \<Longrightarrow>
     written w' = written w \<and> writes w' = writes w \<and>
     attempts w \<le> attempts w' \<and> attempts w' \<le> attempts w + k"
proof (induction k arbitrary: w)
  case 0
  then show ?case by simp
next
  case (Suc k)
  show ?case
  proof (cases "establish_connection e (attempts w)")
    case None
    with Suc.prems have "connect_attempts e k (w\<lparr>attempts := Suc (attempts w)\<rparr>) = (r, w')" by simp
    from Suc.IH [OF this] show ?thesis by simp
  next
    case (Some c)
    with Suc.prems show ?thesis by auto
  qed
qed

lemma connect_attempts_Some:
  "connect_attempts e k w = (Some c, w') \<Longrightarrow>
     \<exists>i. attempts w \<le> i \<and> i < attempts w + k \<and>
         list_all (\<lambda>j. establish_connection e j = None) [attempts w..<i] \<and>
         establish_connection e i = Some c \<and> w' = w\<lparr>attempts := Suc i\<rparr>"
proof (induction k arbitrary: w)
  case 0
  then show ?case by simp
next
  case (Suc k)
  show ?case
  proof (cases "establish_connection e (attempts w)")
    case None
    let ?w1 = "w\<lparr>attempts := Suc (attempts w)\<rparr>"
    from None Suc.prems have "connect_attempts e k ?w1 = (Some c, w')" by simp
    from Suc.IH [OF this] obtain i where i:
      "Suc (attempts w) \<le> i" "i < Suc (attempts w) + k"
      "list_all (\<lambda>j. establish_connection e j = None) [Suc (attempts w)..<i]"
      "establish_connection e i = Some c" "w' = ?w1\<lparr>attempts := Suc i\<rparr>"
      by auto
    have "[attempts w..<i] = attempts w # [Suc (attempts w)..<i]"
      using i(1) by (simp add: upt_conv_Cons)
    with None i show ?thesis by (intro exI [of _ i]) simp
  next
    case (Some d)
    with Suc.prems show ?thesis by (intro exI [of _ "attempts w"]) auto
  qed
qed

text \<open>
  Claim C2. \<^verbatim>\<open>_connectBluetooth\<close> makes at most three attempts and swallows the
  failure of each. When the first two fail and the third succeeds, the client of the
  third is returned after exactly three attempts. When all three fail, the function
  raises nothing: it returns \<^verbatim>\<open>None\<close> after three attempts, and the caller's
  \<^verbatim>\<open>client.write_gatt_char\<close> then raises AttributeError, in \<^verbatim>\<open>async_turn_on\<close>
  and in \<^verbatim>\<open>async_turn_off\<close> alike.
\<close>

theorem C2_connect_three_attempts:
  "(establish_connection e1 (attempts w1) = None \<and>
    establish_connection e1 (attempts w1 + 1) = None \<and>
    establish_connection e1 (attempts w1 + 2) = Some c \<longrightarrow>
      connectBluetooth e1 w1 = (Some c, w1\<lparr>attempts := attempts w1 + 3\<rparr>)) \<and>
   (establish_connection e2 (attempts w2) = None \<and>
    establish_connection e2 (attempts w2 + 1) = None \<and>
    establish_connection e2 (attempts w2 + 2) = None \<longrightarrow>
      connectBluetooth e2 w2 = (None, w2\<lparr>attempts := attempts w2 + 3\<rparr>) \<and>
      send_commands e2 (f # fs) w2 = (Inl AttributeError, w2\<lparr>attempts := attempts w2 + 3\<rparr>) \<and>
      async_turn_off e2 self w2 = (Inl AttributeError, self, w2\<lparr>attempts := attempts w2 + 3\<rparr>))"
  by (simp add: connectBluetooth_def async_turn_off_def numeral_3_eq_3)

theorem C2_connect_three_attempts_witness:
  "connectBluetooth (example_env (\<lambda>n. if n < 2 then None else Some 7)) ble0 =
     (Some 7, ble0\<lparr>attempts := 3\<rparr>) \<and>
   connectBluetooth (example_env (\<lambda>n. None)) ble0 = (None, ble0\<lparr>attempts := 3\<rparr>) \<and>
   send_commands (example_env (\<lambda>n. None)) [[0x33, 0x01]] ble0 =
     (Inl AttributeError, ble0\<lparr>attempts := 3\<rparr>) \<and>
   async_turn_off (example_env (\<lambda>n. None)) (GoveeBluetoothLight_init ''H6001'') ble0 =
     (Inl AttributeError, GoveeBluetoothLight_init ''H6001'', ble0\<lparr>attempts := 3\<rparr>)"
  using C2_connect_three_attempts
    [where ?e1.0 = "example_env (\<lambda>n. if n < 2 then None else Some 7)" and ?w1.0 = ble0 and c = 7
       and ?e2.0 = "example_env (\<lambda>n. None)" and ?w2.0 = ble0 and f = "[0x33, 0x01]" and fs = "[]"
       and self = "GoveeBluetoothLight_init ''H6001''"]
  by (simp add: example_env_def ble0_def)

text \<open>
  What the delivery loop leaves in the log: the frames written are an initial segment of
  the command list, in order, and the client of each is the one returned by the call of
  \<^verbatim>\<open>_connectBluetooth\<close> made for that frame.
\<close>

lemma send_commands_log:
  "send_commands e cmds w = (r, w') \<Longrightarrow>
     \<exists>conns. length conns \<le> length cmds \<and>
       connection_runs e (attempts w) conns \<and>
       written w' = written w @ zip (map snd conns) cmds \<and>
       ((r = Inr ()) = (length conns = length cmds)) \<and>
       (if conns = [] then attempts w else Suc (fst (last conns))) \<le> attempts w' \<and>
       (r = Inr () \<longrightarrow>
          attempts w' = (if conns = [] then attempts w else Suc (fst (last conns))))"
proof (induction cmds arbitrary: w)
  case Nil
  then show ?case by (intro exI [of _ "[]"]) auto
next
  case (Cons f fs)
  obtain oc w1 where c: "connectBluetooth e w = (oc, w1)" by (cases "connectBluetooth e w")
  then have ca: "connect_attempts e 3 w = (oc, w1)" by (simp add: connectBluetooth_def)
  note fr = connect_attempts_frame [OF ca]
  show ?case
  proof (cases oc)
    case None
    with c Cons.prems have "w' = w1" "r = Inl AttributeError" by simp_all
    with fr show ?thesis by (intro exI [of _ "[]"]) simp
  next
    case (Some cl)
    from connect_attempts_Some [OF ca [unfolded Some]]
    obtain i where i: "attempts w \<le> i" "i < attempts w + 3"
      "list_all (\<lambda>j. establish_connection e j = None) [attempts w..<i]"
      "establish_connection e i = Some cl" "w1 = w\<lparr>attempts := Suc i\<rparr>"
      by blast
    show ?thesis
    proof (cases "write_succeeds e (writes w1)")
      case False
      with c Some Cons.prems have "w' = w1\<lparr>writes := Suc (writes w1)\<rparr>" "r = Inl BleakError"
        by (simp_all add: write_gatt_char_def)
      with fr show ?thesis by (intro exI [of _ "[]"]) simp
    next
      case True
      let ?w2 = "w1\<lparr>writes := Suc (writes w1), written := written w1 @ [(cl, f)]\<rparr>"
      from True c Some Cons.prems have "send_commands e fs ?w2 = (r, w')"
        by (simp add: write_gatt_char_def)
      from Cons.IH [OF this] obtain conns where l:
        "length conns \<le> length fs"
        "connection_runs e (attempts ?w2) conns"
        "written w' = written ?w2 @ zip (map snd conns) fs"
        "(r = Inr ()) = (length conns = length fs)"
        "(if conns = [] then attempts ?w2 else Suc (fst (last conns))) \<le> attempts w'"
        "r = Inr () \<longrightarrow>
           attempts w' = (if conns = [] then attempts ?w2 else Suc (fst (last conns)))"
        by blast
      have a2: "attempts ?w2 = Suc i" using i(5) by simp
      have "connection_runs e (attempts w) ((i, cl) # conns)"
        using i(1-4) l(2) unfolding a2 by simp
      moreover have "written w' = written w @ zip (map snd ((i, cl) # conns)) (f # fs)"
        using l(3) fr by simp
      moreover have "Suc (fst (last ((i, cl) # conns))) =
          (if conns = [] then attempts ?w2 else Suc (fst (last conns)))"
        using a2 by simp
      ultimately show ?thesis
        using l(1,4,5,6) by (intro exI [of _ "(i, cl) # conns"]) simp
    qed
  qed
qed

section \<open>The behaviour of the command builder\<close>



lemma power_on_frame:
  "prepareSinglePacketData (PyInt (LedCommand_value POWER)) (PyList [PyInt 0x1]) =
     Inr [0x33, 0x01, 0x01, 0, 0, 0, 0, 0, 0, 0, 0, 0, 0, 0, 0, 0, 0, 0, 0, 0x33]"
  using prepare_int_list [of "[1]" 1]
  by (simp add: in_byte_range_def frame_body_single)

lemma power_on_frame_num:
  "prepareSinglePacketData (PyInt 1) (PyList [PyInt 1]) =
     Inr [0x33, 0x01, 0x01, 0, 0, 0, 0, 0, 0, 0, 0, 0, 0, 0, 0, 0, 0, 0, 0, 0x33]"
  using power_on_frame by simp

lemma power_off_frame:
  "prepareSinglePacketData (PyInt (LedCommand_value POWER)) (PyList [PyInt 0x0]) =
     Inr [0x33, 0x01, 0x00, 0, 0, 0, 0, 0, 0, 0, 0, 0, 0, 0, 0, 0, 0, 0, 0, 0x32]"
  using prepare_int_list [of "[0]" 1]
  by (simp add: in_byte_range_def frame_body_single)

lemma power_off_frame_num:
  "prepareSinglePacketData (PyInt 1) (PyList [PyInt 0]) =
     Inr [0x33, 0x01, 0x00, 0, 0, 0, 0, 0, 0, 0, 0, 0, 0, 0, 0, 0, 0, 0, 0, 0x32]"
  using power_off_frame by simp

text \<open>\<^verbatim>\<open>async_turn_off\<close> delivers its one frame as the loop delivers a list of one.\<close>

lemma async_turn_off_send:
  assumes "async_turn_off e self w = (r, s, w')"
  shows "send_commands e
           [[0x33, 0x01, 0x00, 0, 0, 0, 0, 0, 0, 0, 0, 0, 0, 0, 0, 0, 0, 0, 0, 0x32]] w = (r, w')"
  using assms
  by (auto simp: async_turn_off_def power_off_frame_num split: prod.splits option.splits sum.splits)









text \<open>An index of more than 4300 digits: \<^verbatim>\<open>int\<close> raises before any lookup.\<close>

lemma turn_on_effect_digit_limit:
  assumes "ATTR_EFFECT kw = Some effect"
    and "EFFECT_PARSE_search effect = Some (g1, g2, g3, g4)"
    and "int_max_str_digits < length g1"
  shows "turn_on_effect e s kw cmds =
           Inl (ValueError ''Exceeds the limit (4300 digits) for integer string conversion'')"
proof -
  have "effect \<noteq> []" using assms(2) by auto
  then show ?thesis using assms by (simp add: turn_on_effect_def py_int_def)
qed

lemma turn_on_brightness_valid:
  assumes "case ATTR_BRIGHTNESS kw of None \<Rightarrow> True | Some b \<Rightarrow> in_byte_range b"
  shows "\<exists>bs. turn_on_brightness s kw cmds =
           Inr (cmds @ bs,
                s\<lparr>self_brightness :=
                     (case ATTR_BRIGHTNESS kw of None \<Rightarrow> self_brightness s | Some b \<Rightarrow> Some b)\<rparr>)"
proof (cases "ATTR_BRIGHTNESS kw")
  case None
  then show ?thesis by (simp add: turn_on_brightness_def)
next
  case (Some b)
  with assms have r: "in_byte_range b" by simp
  then have "0 \<le> b" "b \<le> 255" by (simp_all add: in_byte_range_def)
  then have p: "in_byte_range (brightnessPercent b)" by (rule brightnessPercent_range)
  show ?thesis
    using Some brightness_frame [OF r] brightness_frame [OF p]
    by (simp add: turn_on_brightness_def)
qed

lemma turn_on_color_valid:
  assumes "case ATTR_RGB_COLOR kw of None \<Rightarrow> True
           | Some (r, g, b) \<Rightarrow> in_byte_range r \<and> in_byte_range g \<and> in_byte_range b"
  shows "\<exists>cs. turn_on_color s kw cmds =
           Inr (cmds @ cs,
                s\<lparr>self_rgb_color :=
                     (case ATTR_RGB_COLOR kw of None \<Rightarrow> self_rgb_color s | Some c \<Rightarrow> Some c)\<rparr>)"
proof (cases "ATTR_RGB_COLOR kw")
  case None
  then show ?thesis by (simp add: turn_on_color_def)
next
  case (Some rgb)
  obtain r g b where rgb: "rgb = (r, g, b)" by (cases rgb)
  with assms Some have v: "in_byte_range r" "in_byte_range g" "in_byte_range b" by simp_all
  have m: "\<exists>f. prepareSinglePacketData (PyInt 5) (PyList (map PyInt [2, r, g, b])) = Inr f"
    using prepare_int_list [of "[2, r, g, b]" 5] v by (simp add: in_byte_range_def)
  have sg: "\<exists>f. prepareSinglePacketData (PyInt 5)
             (PyList (map PyInt [0x15, 0x01, r, g, b, 0, 0, 0, 0, 0, 0xFF, 0x7F])) = Inr f"
    using prepare_int_list [of "[0x15, 0x01, r, g, b, 0, 0, 0, 0, 0, 0xFF, 0x7F]" 5] v
    by (simp add: in_byte_range_def)
  show ?thesis
    using Some rgb m sg by (auto simp: turn_on_color_def)
qed

lemma turn_on_commands_valid:
  assumes "valid_kwargs kw"
  shows "\<exists>c3. turn_on_commands e self kw =
     ((case turn_on_effect e
              (self\<lparr>self_state := Some True,
                 self_brightness :=
                   (case ATTR_BRIGHTNESS kw of None \<Rightarrow> self_brightness self | Some b \<Rightarrow> Some b),
                 self_rgb_color :=
                   (case ATTR_RGB_COLOR kw of None \<Rightarrow> self_rgb_color self | Some c \<Rightarrow> Some c)\<rparr>)
              kw c3 of
         Inl err \<Rightarrow> Inl err | Inr c \<Rightarrow> Inr c),
      self\<lparr>self_state := Some True,
        self_brightness :=
          (case ATTR_BRIGHTNESS kw of None \<Rightarrow> self_brightness self | Some b \<Rightarrow> Some b),
        self_rgb_color :=
          (case ATTR_RGB_COLOR kw of None \<Rightarrow> self_rgb_color self | Some c \<Rightarrow> Some c)\<rparr>)"
proof -
  let ?p = "[0x33, 0x01, 0x01, 0, 0, 0, 0, 0, 0, 0, 0, 0, 0, 0, 0, 0, 0, 0, 0, 0x33] :: byte list"
  let ?s1 = "self\<lparr>self_state := Some True\<rparr>"
  let ?s2 = "self\<lparr>self_state := Some True,
       self_brightness :=
         (case ATTR_BRIGHTNESS kw of None \<Rightarrow> self_brightness self | Some b \<Rightarrow> Some b)\<rparr>"
  let ?s3 = "self\<lparr>self_state := Some True,
       self_brightness :=
         (case ATTR_BRIGHTNESS kw of None \<Rightarrow> self_brightness self | Some b \<Rightarrow> Some b),
       self_rgb_color :=
         (case ATTR_RGB_COLOR kw of None \<Rightarrow> self_rgb_color self | Some c \<Rightarrow> Some c)\<rparr>"
  from assms have vb: "case ATTR_BRIGHTNESS kw of None \<Rightarrow> True | Some b \<Rightarrow> in_byte_range b"
    and vc: "case ATTR_RGB_COLOR kw of None \<Rightarrow> True
           | Some (r, g, b) \<Rightarrow> in_byte_range r \<and> in_byte_range g \<and> in_byte_range b"
    by (simp_all add: valid_kwargs_def)
  from turn_on_brightness_valid [OF vb, of ?s1 "[?p]"] obtain bs where
    "turn_on_brightness ?s1 kw [?p] =
       Inr ([?p] @ bs, ?s1\<lparr>self_brightness :=
          (case ATTR_BRIGHTNESS kw of None \<Rightarrow> self_brightness ?s1 | Some b \<Rightarrow> Some b)\<rparr>)"
    by blast
  then have b: "turn_on_brightness ?s1 kw [?p] = Inr (?p # bs, ?s2)"
    by (simp cong: option.case_cong)
  from turn_on_color_valid [OF vc, of ?s2 "?p # bs"] obtain cs where
    "turn_on_color ?s2 kw (?p # bs) =
       Inr ((?p # bs) @ cs, ?s2\<lparr>self_rgb_color :=
          (case ATTR_RGB_COLOR kw of None \<Rightarrow> self_rgb_color ?s2 | Some c \<Rightarrow> Some c)\<rparr>)"
    by blast
  then have c: "turn_on_color ?s2 kw (?p # bs) = Inr (?p # bs @ cs, ?s3)"
    by (simp cong: option.case_cong)
  have "turn_on_commands e self kw =
     ((case turn_on_effect e ?s3 kw (?p # bs @ cs) of Inl err \<Rightarrow> Inl err | Inr c \<Rightarrow> Inr c), ?s3)"
    unfolding turn_on_commands_def Let_def
    by (simp add: power_on_frame_num b c split: sum.splits)
  then show ?thesis by blast
qed

lemma turn_on_commands_state:
  "self_state (snd (turn_on_commands e self kw)) = Some True \<and>
   self_model (snd (turn_on_commands e self kw)) = self_model self"
proof -
  let ?p = "[0x33, 0x01, 0x01, 0, 0, 0, 0, 0, 0, 0, 0, 0, 0, 0, 0, 0, 0, 0, 0, 0x33] :: byte list"
  let ?s1 = "self\<lparr>self_state := Some True\<rparr>"
  show ?thesis
  proof (cases "turn_on_brightness ?s1 kw [?p]")
    case (Inl err)
    then show ?thesis by (simp add: turn_on_commands_def power_on_frame_num)
  next
    case (Inr x)
    obtain c2 s2 where x: "x = (c2, s2)" by (cases x)
    from Inr x have s2: "self_state s2 = Some True" "self_model s2 = self_model self"
      by (auto simp: turn_on_brightness_def split: option.splits sum.splits if_splits)
    show ?thesis
    proof (cases "turn_on_color s2 kw c2")
      case (Inl err)
      with Inr x s2 show ?thesis by (simp add: turn_on_commands_def power_on_frame_num)
    next
      case (Inr y)
      obtain c3 s3 where y: "y = (c3, s3)" by (cases y)
      from Inr y s2 have "self_state s3 = Some True" "self_model s3 = self_model self"
        by (auto simp: turn_on_color_def split: option.splits sum.splits if_splits prod.splits)
      with \<open>turn_on_brightness ?s1 kw [?p] = Inr x\<close> x Inr y show ?thesis
        by (simp add: turn_on_commands_def power_on_frame_num split: sum.splits)
    qed
  qed
qed

lemma async_turn_on_entity:
  "fst (snd (async_turn_on e self kw w)) = snd (turn_on_commands e self kw)"
  by (simp add: async_turn_on_def split: prod.splits sum.splits)

lemma turn_on_commands_128_red:
  "turn_on_commands (example_env Some) (GoveeBluetoothLight_init ''H6001'') kw_128_red =
    (Inr [[0x33, 0x01, 0x01, 0, 0, 0, 0, 0, 0, 0, 0, 0, 0, 0, 0, 0, 0, 0, 0, 0x33],
          [0x33, 0x04, 128, 0, 0, 0, 0, 0, 0, 0, 0, 0, 0, 0, 0, 0, 0, 0, 0, 183],
          [0x33, 0x05, 0x02, 255, 0, 0, 0, 0, 0, 0, 0, 0, 0, 0, 0, 0, 0, 0, 0, 203]],
     (GoveeBluetoothLight_init ''H6001'')
       \<lparr>self_state := Some True, self_brightness := Some 128, self_rgb_color := Some (255, 0, 0)\<rparr>)"
  by code_simp








text \<open>
  Claim C9. \<^verbatim>\<open>async_turn_on\<close> sets \<^verbatim>\<open>_state\<close> to True, and for an intent with
  brightness and colour in 0..255 it records the requested brightness and colour, while
  it builds the frames, before the first connection attempt. The entity it leaves is
  the one the building phase produced, whatever the effect resolution, the connection
  attempts and the writes do afterwards: nothing is rolled back.
\<close>

theorem C9_entity_state_recorded_before_delivery:
  "self_state (fst (snd (async_turn_on e self kw w))) = Some True \<and>
   (valid_kwargs kw \<longrightarrow>
      snd (turn_on_commands e self kw) =
        self\<lparr>self_state := Some True,
          self_brightness :=
            (case ATTR_BRIGHTNESS kw of None \<Rightarrow> self_brightness self | Some b \<Rightarrow> Some b),
          self_rgb_color :=
            (case ATTR_RGB_COLOR kw of None \<Rightarrow> self_rgb_color self | Some c \<Rightarrow> Some c)\<rparr> \<and>
      fst (snd (async_turn_on e self kw w)) = snd (turn_on_commands e self kw))"
proof (intro conjI impI)
  show "self_state (fst (snd (async_turn_on e self kw w))) = Some True"
    using turn_on_commands_state [of e self kw] by (simp add: async_turn_on_entity)
  show "fst (snd (async_turn_on e self kw w)) = snd (turn_on_commands e self kw)"
    by (rule async_turn_on_entity)
  assume "valid_kwargs kw"
  from turn_on_commands_valid [OF this, of e self]
  show "snd (turn_on_commands e self kw) =
        self\<lparr>self_state := Some True,
          self_brightness :=
            (case ATTR_BRIGHTNESS kw of None \<Rightarrow> self_brightness self | Some b \<Rightarrow> Some b),
          self_rgb_color :=
            (case ATTR_RGB_COLOR kw of None \<Rightarrow> self_rgb_color self | Some c \<Rightarrow> Some c)\<rparr>"
    by auto
qed



theorem C9_entity_state_recorded_before_delivery_witness:
  "valid_kwargs kw_effect_9 \<and>
   async_turn_on (example_env (\<lambda>n. None)) (GoveeBluetoothLight_init ''H6001'') kw_effect_9 ble0 =
     (Inl IndexError,
      (GoveeBluetoothLight_init ''H6001'')
        \<lparr>self_state := Some True, self_brightness := Some 128, self_rgb_color := Some (255, 0, 0)\<rparr>,
      ble0) \<and>
   valid_kwargs kw_128_red \<and>
   async_turn_on (example_env (\<lambda>n. None)) (GoveeBluetoothLight_init ''H6001'') kw_128_red ble0 =
     (Inl AttributeError,
      (GoveeBluetoothLight_init ''H6001'')
        \<lparr>self_state := Some True, self_brightness := Some 128, self_rgb_color := Some (255, 0, 0)\<rparr>,
      ble0\<lparr>attempts := 3\<rparr>)"
proof -
  let ?e = "example_env (\<lambda>n. None)"
  let ?s = "GoveeBluetoothLight_init ''H6001''"
  have v1: "valid_kwargs kw_effect_9"
    by (simp add: valid_kwargs_def kw_effect_9_def in_byte_range_def)
  have v2: "valid_kwargs kw_128_red"
    by (simp add: valid_kwargs_def kw_128_red_def in_byte_range_def)
  from C9_entity_state_recorded_before_delivery [of ?e ?s kw_effect_9 ble0] v1
  have s1: "fst (snd (async_turn_on ?e ?s kw_effect_9 ble0)) =
      ?s\<lparr>self_state := Some True, self_brightness := Some 128, self_rgb_color := Some (255, 0, 0)\<rparr>"
    by (simp add: kw_effect_9_def)
  from C9_entity_state_recorded_before_delivery [of ?e ?s kw_128_red ble0] v2
  have s2: "fst (snd (async_turn_on ?e ?s kw_128_red ble0)) =
      ?s\<lparr>self_state := Some True, self_brightness := Some 128, self_rgb_color := Some (255, 0, 0)\<rparr>"
    by (simp add: kw_128_red_def)
  have r1: "fst (async_turn_on ?e ?s kw_effect_9 ble0) = Inl IndexError"
    "snd (snd (async_turn_on ?e ?s kw_effect_9 ble0)) = ble0"
    by code_simp+
  have r2: "fst (async_turn_on ?e ?s kw_128_red ble0) = Inl AttributeError"
    "snd (snd (async_turn_on ?e ?s kw_128_red ble0)) = ble0\<lparr>attempts := 3\<rparr>"
    by code_simp+
  have "async_turn_on ?e ?s kw_effect_9 ble0 =
      (Inl IndexError,
       ?s\<lparr>self_state := Some True, self_brightness := Some 128, self_rgb_color := Some (255, 0, 0)\<rparr>,
       ble0)"
    using s1 r1 by (metis prod.collapse)
  moreover have "async_turn_on ?e ?s kw_128_red ble0 =
      (Inl AttributeError,
       ?s\<lparr>self_state := Some True, self_brightness := Some 128, self_rgb_color := Some (255, 0, 0)\<rparr>,
       ble0\<lparr>attempts := 3\<rparr>)"
    using s2 r2 by (metis prod.collapse)
  ultimately show ?thesis using v1 v2 by blast
qed

text \<open>
  Claim C5. The claim says that all frames of one logical command go over the same
  link. \<^verbatim>\<open>async_turn_on\<close> calls \<^verbatim>\<open>_connectBluetooth\<close> inside its delivery loop,
  once per frame, so each frame is written on the client that its own call returned.
  With an environment where every connection attempt returns a new client, the three
  frames of one turn-on are written on the three clients 0, 1 and 2.
\<close>

theorem C5_same_link_counterexample:
  "fst (async_turn_on (example_env Some) (GoveeBluetoothLight_init ''H6001'') kw_128_red ble0) = Inr () \<and>
   map fst (written (snd (snd
       (async_turn_on (example_env Some) (GoveeBluetoothLight_init ''H6001'') kw_128_red ble0)))) =
     [0, 1, 2]"
  by code_simp

text \<open>
  Claim C5, as amended. For a turn-on or turn-off call that runs with no other command
  for the same device in flight between its start and its end: the frames the call
  writes are an initial segment of its command list, in order and without gaps, appended
  to what was written before the call, and they are the whole list exactly when the call
  completes; the \<open>k\<close>-th frame is written on the client returned by the \<open>k\<close>-th call of
  \<^verbatim>\<open>_connectBluetooth\<close>, a call made for that frame which starts with the attempt after
  the one that gave the previous frame its client. When the call completes, the last
  connection attempt made is the one that gave the last frame its client. The clients
  of two frames may differ. The command list of a turn-off is the single Power-off
  frame.
\<close>

theorem C5_frames_in_order_each_on_its_own_link:
  "(turn_on_commands e self kw = (Inr commands, s) \<and> async_turn_on e self kw w = (r, s', w') \<longrightarrow>
      (\<exists>conns. length conns \<le> length commands \<and>
         connection_runs e (attempts w) conns \<and>
         written w' = written w @ zip (map snd conns) commands \<and>
         ((r = Inr ()) = (length conns = length commands)) \<and>
         (if conns = [] then attempts w else Suc (fst (last conns))) \<le> attempts w' \<and>
         (r = Inr () \<longrightarrow>
            attempts w' = (if conns = [] then attempts w else Suc (fst (last conns)))))) \<and>
   (async_turn_off e self w = (r2, s2, w2) \<longrightarrow>
      (\<exists>conns. length conns \<le> 1 \<and>
         connection_runs e (attempts w) conns \<and>
         written w2 = written w @
           zip (map snd conns) [[0x33, 0x01, 0x00, 0, 0, 0, 0, 0, 0, 0, 0, 0, 0, 0, 0, 0, 0, 0, 0, 0x32]] \<and>
         ((r2 = Inr ()) = (length conns = 1)) \<and>
         (if conns = [] then attempts w else Suc (fst (last conns))) \<le> attempts w2 \<and>
         (r2 = Inr () \<longrightarrow>
            attempts w2 = (if conns = [] then attempts w else Suc (fst (last conns))))))"
proof (intro conjI impI)
  assume "turn_on_commands e self kw = (Inr commands, s) \<and> async_turn_on e self kw w = (r, s', w')"
  then have "send_commands e commands w = (r, w')"
    by (auto simp: async_turn_on_def split: prod.splits)
  from send_commands_log [OF this]
  show "\<exists>conns. length conns \<le> length commands \<and>
         connection_runs e (attempts w) conns \<and>
         written w' = written w @ zip (map snd conns) commands \<and>
         ((r = Inr ()) = (length conns = length commands)) \<and>
         (if conns = [] then attempts w else Suc (fst (last conns))) \<le> attempts w' \<and>
         (r = Inr () \<longrightarrow>
            attempts w' = (if conns = [] then attempts w else Suc (fst (last conns))))" .
next
  assume "async_turn_off e self w = (r2, s2, w2)"
  from send_commands_log [OF async_turn_off_send [OF this]]
  show "\<exists>conns. length conns \<le> 1 \<and>
         connection_runs e (attempts w) conns \<and>
         written w2 = written w @
           zip (map snd conns) [[0x33, 0x01, 0x00, 0, 0, 0, 0, 0, 0, 0, 0, 0, 0, 0, 0, 0, 0, 0, 0, 0x32]] \<and>
         ((r2 = Inr ()) = (length conns = 1)) \<and>
         (if conns = [] then attempts w else Suc (fst (last conns))) \<le> attempts w2 \<and>
         (r2 = Inr () \<longrightarrow>
            attempts w2 = (if conns = [] then attempts w else Suc (fst (last conns))))"
    by simp
qed

theorem C5_frames_in_order_each_on_its_own_link_witness:
  "connection_runs (example_env Some) (attempts ble0) [(0, 0), (1, 1), (2, 2)] \<and>
   written (snd (snd
       (async_turn_on (example_env Some) (GoveeBluetoothLight_init ''H6001'') kw_128_red ble0))) =
     zip [0, 1, 2]
       [[0x33, 0x01, 0x01, 0, 0, 0, 0, 0, 0, 0, 0, 0, 0, 0, 0, 0, 0, 0, 0, 0x33],
        [0x33, 0x04, 128, 0, 0, 0, 0, 0, 0, 0, 0, 0, 0, 0, 0, 0, 0, 0, 0, 183],
        [0x33, 0x05, 0x02, 255, 0, 0, 0, 0, 0, 0, 0, 0, 0, 0, 0, 0, 0, 0, 0, 203]] \<and>
   fst (async_turn_on (example_env Some) (GoveeBluetoothLight_init ''H6001'') kw_128_red ble0) = Inr () \<and>
   written (snd (snd (async_turn_off (example_env Some) (GoveeBluetoothLight_init ''H6001'') ble0))) =
     zip [0] [[0x33, 0x01, 0x00, 0, 0, 0, 0, 0, 0, 0, 0, 0, 0, 0, 0, 0, 0, 0, 0, 0x32]] \<and>
   fst (async_turn_off (example_env Some) (GoveeBluetoothLight_init ''H6001'') ble0) = Inr () \<and>
   attempts (snd (snd
       (async_turn_on (example_env Some) (GoveeBluetoothLight_init ''H6001'') kw_128_red ble0))) = 3"
proof -
  let ?e = "example_env Some"
  let ?s = "GoveeBluetoothLight_init ''H6001''"
  let ?r = "async_turn_on ?e ?s kw_128_red ble0"
  let ?o = "async_turn_off ?e ?s ble0"
  let ?cmds = "[[0x33, 0x01, 0x01, 0, 0, 0, 0, 0, 0, 0, 0, 0, 0, 0, 0, 0, 0, 0, 0, 0x33],
        [0x33, 0x04, 128, 0, 0, 0, 0, 0, 0, 0, 0, 0, 0, 0, 0, 0, 0, 0, 0, 183],
        [0x33, 0x05, 0x02, 255, 0, 0, 0, 0, 0, 0, 0, 0, 0, 0, 0, 0, 0, 0, 0, 203]] :: byte list list"
  let ?off = "[[0x33, 0x01, 0x00, 0, 0, 0, 0, 0, 0, 0, 0, 0, 0, 0, 0, 0, 0, 0, 0, 0x32]] :: byte list list"
  have a: "turn_on_commands ?e ?s kw_128_red = (Inr ?cmds, (GoveeBluetoothLight_init ''H6001'')
       \<lparr>self_state := Some True, self_brightness := Some 128, self_rgb_color := Some (255, 0, 0)\<rparr>) \<and>
      ?r = (fst ?r, fst (snd ?r), snd (snd ?r))"
    using turn_on_commands_128_red by simp
  have b: "?o = (fst ?o, fst (snd ?o), snd (snd ?o))" by simp
  note t = C5_frames_in_order_each_on_its_own_link
    [where e = ?e and self = ?s and kw = kw_128_red and w = ble0 and commands = ?cmds
       and s = "(GoveeBluetoothLight_init ''H6001'')
       \<lparr>self_state := Some True, self_brightness := Some 128, self_rgb_color := Some (255, 0, 0)\<rparr>"
       and r = "fst ?r" and s' = "fst (snd ?r)" and w' = "snd (snd ?r)"
       and ?r2.0 = "fst ?o" and ?s2.0 = "fst (snd ?o)" and ?w2.0 = "snd (snd ?o)"]
  have "\<exists>conns :: (nat \<times> client) list.
          written (snd (snd ?r)) = written ble0 @ zip (map snd conns) ?cmds"
    using mp [OF t [THEN conjunct1] a] by (elim exE conjE) (rule exI, assumption)
  then obtain conns :: "(nat \<times> client) list" where l: "written (snd (snd ?r)) = written ble0 @ zip (map snd conns) ?cmds" ..
  have "\<exists>conns :: (nat \<times> client) list.
          written (snd (snd ?o)) = written ble0 @ zip (map snd conns) ?off"
    using mp [OF t [THEN conjunct2] b] by (elim exE conjE) (rule exI, assumption)
  then obtain conns2 :: "(nat \<times> client) list" where l2: "written (snd (snd ?o)) = written ble0 @ zip (map snd conns2) ?off" ..
  have r1: "fst ?r = Inr ()" and r2: "fst ?o = Inr ()" by code_simp+
  have "map fst (written (snd (snd ?r))) = [0, 1, 2]" by code_simp
  moreover have "map snd (written (snd (snd ?r))) = ?cmds" by code_simp
  ultimately have w1: "written (snd (snd ?r)) = zip [0, 1, 2] ?cmds"
    using l by (metis zip_map_fst_snd)
  have "map fst (written (snd (snd ?o))) = [0]" by code_simp
  moreover have "map snd (written (snd (snd ?o))) = ?off" by code_simp
  ultimately have w2: "written (snd (snd ?o)) = zip [0] ?off"
    using l2 by (metis zip_map_fst_snd)
  have cr: "connection_runs ?e (attempts ble0) [(0, 0), (1, 1), (2, 2)]" by code_simp
  have at: "attempts (snd (snd ?r)) = 3" by code_simp
  from cr w1 r1 w2 r2 at show ?thesis by blast
qed

end
